theory Spec2Isabelle
  imports Complex_Main "HOL-Library.Word"
begin

section \<open>Strings and character classes\<close>

text \<open>
  A JavaScript string is a sequence of UTF-16 code units; \<open>token.length\<close> is the number
  of code units, and a regular expression without the \<open>u\<close> flag matches code unit by code
  unit. None of the regular expressions of \<^verbatim>\<open>src/index.ts\<close> has the \<open>g\<close> or \<open>y\<close> flag, so
  \<open>RE.test\<close> has no state.
\<close>

type_synonym code_unit = "16 word"
type_synonym jsstring = "code_unit list"

text \<open>An ASCII literal as a JavaScript string.\<close>

definition js :: "string \<Rightarrow> jsstring" where
  "js s = map of_char s"

text \<open>
  The class \<open>\s\<close>: the WhiteSpace and LineTerminator code points of ECMAScript (TAB, LF, VT,
  FF, CR, SPACE, NBSP, U+1680, U+2000..U+200A, U+2028, U+2029, U+202F, U+205F, U+3000,
  U+FEFF).
\<close>

definition is_space :: "code_unit \<Rightarrow> bool" where
  "is_space c \<longleftrightarrow>
     c \<in> set [0x09, 0x0A, 0x0B, 0x0C, 0x0D, 0x20, 0xA0, 0x1680, 0x2028, 0x2029,
              0x202F, 0x205F, 0x3000, 0xFEFF]
     \<or> (0x2000 \<le> c \<and> c \<le> 0x200A)"

text \<open>The class \<open>\d\<close>: the digits 0 to 9.\<close>

definition is_digit :: "code_unit \<Rightarrow> bool" where
  "is_digit c \<longleftrightarrow> 0x30 \<le> c \<and> c \<le> 0x39"

text \<open>
  The punctuation class, in the order of the source (the same class stands in the
  splitting expression and in \<open>PUNCTUATION_RE\<close>):
  \<^verbatim>\<open>. , ! ? ; ' "\<close> U+201E U+201C U+201D U+2018 U+2019
  \<^verbatim>\<open>- ( ) { } [ ] < > : / \ | @ # $ % ^ & * + = ` ~\<close>
\<close>

definition is_punct :: "code_unit \<Rightarrow> bool" where
  "is_punct c \<longleftrightarrow>
     c \<in> set [0x2E, 0x2C, 0x21, 0x3F, 0x3B, 0x27, 0x22, 0x201E, 0x201C, 0x201D, 0x2018,
              0x2019, 0x2D, 0x28, 0x29, 0x7B, 0x7D, 0x5B, 0x5D, 0x3C, 0x3E, 0x3A, 0x2F,
              0x5C, 0x7C, 0x40, 0x23, 0x24, 0x25, 0x5E, 0x26, 0x2A, 0x2B, 0x3D, 0x60, 0x7E]"

text \<open>The ranges of \<open>CJK_RE\<close>, in the order of the source.\<close>

definition is_cjk :: "code_unit \<Rightarrow> bool" where
  "is_cjk c \<longleftrightarrow>
     list_ex (\<lambda>(lo, hi). lo \<le> c \<and> c \<le> hi)
       [(0x4E00, 0x9FFF), (0x3400, 0x4DBF), (0x3000, 0x303F), (0xFF00, 0xFFEF),
        (0x30A0, 0x30FF), (0x2E80, 0x2EFF), (0x31C0, 0x31EF), (0x3200, 0x32FF),
        (0x3300, 0x33FF), (0xAC00, 0xD7AF), (0x1100, 0x11FF), (0x3130, 0x318F),
        (0xA960, 0xA97F), (0xD7B0, 0xD7FF)]"

text \<open>The class of \<open>ALPHANUMERIC_RE\<close>: \<^verbatim>\<open>a-z A-Z 0-9\<close>, U+00C0..U+00D6, U+00D8..U+00F6, U+00F8..U+00FF.\<close>

definition is_alnum :: "code_unit \<Rightarrow> bool" where
  "is_alnum c \<longleftrightarrow>
     list_ex (\<lambda>(lo, hi). lo \<le> c \<and> c \<le> hi)
       [(0x61, 0x7A), (0x41, 0x5A), (0x30, 0x39), (0xC0, 0xD6), (0xD8, 0xF6), (0xF8, 0xFF)]"

text \<open>
  The class of the one language metric, \<^verbatim>\<open>/[...]/i\<close> over U+00E4, U+00F6, U+00FC, U+00DF,
  U+1E9E. Without the \<open>u\<close> flag, \<open>i\<close> compares the upper-case forms of single code units:
  the three umlauts also match U+00C4, U+00D6, U+00DC; U+00DF has no one-unit upper-case
  form and U+1E9E is its own, so both match only themselves.
\<close>

definition is_umlaut :: "code_unit \<Rightarrow> bool" where
  "is_umlaut c \<longleftrightarrow> c \<in> set [0xE4, 0xC4, 0xF6, 0xD6, 0xFC, 0xDC, 0xDF, 0x1E9E]"

text \<open>
  The regular expressions as predicates on a token. \<^verbatim>\<open>/^\s+$/\<close> and \<^verbatim>\<open>/^[...]+$/\<close> ask for a
  non-empty string of the class only; an expression that is not anchored asks for one
  character of its class anywhere.
\<close>

definition WHITESPACE_RE :: "jsstring \<Rightarrow> bool" where
  "WHITESPACE_RE s \<longleftrightarrow> s \<noteq> [] \<and> list_all is_space s"

definition CJK_RE :: "jsstring \<Rightarrow> bool" where
  "CJK_RE s \<longleftrightarrow> list_ex is_cjk s"

definition NUMERIC_SEQUENCE_RE :: "jsstring \<Rightarrow> bool" where
  "NUMERIC_SEQUENCE_RE s \<longleftrightarrow> list_ex (\<lambda>c. is_digit c \<or> c = 0x2E \<or> c = 0x2C) s"

definition PUNCTUATION_RE :: "jsstring \<Rightarrow> bool" where
  "PUNCTUATION_RE s \<longleftrightarrow> list_ex is_punct s"

definition ALPHANUMERIC_RE :: "jsstring \<Rightarrow> bool" where
  "ALPHANUMERIC_RE s \<longleftrightarrow> s \<noteq> [] \<and> list_all is_alnum s"

definition DEFAULT_AVERAGE_CHARS_PER_TOKEN :: int where
  "DEFAULT_AVERAGE_CHARS_PER_TOKEN = 6"

definition LANGUAGE_METRICS :: "((jsstring \<Rightarrow> bool) \<times> int) list" where
  "LANGUAGE_METRICS = [(list_ex is_umlaut, 3)]"

text \<open>
  \<open>Array.from(token).length\<close>: the string iterator yields code points, so a high surrogate
  followed by a low surrogate counts once.
\<close>

definition is_high_surrogate :: "code_unit \<Rightarrow> bool" where
  "is_high_surrogate c \<longleftrightarrow> 0xD800 \<le> c \<and> c \<le> 0xDBFF"

definition is_low_surrogate :: "code_unit \<Rightarrow> bool" where
  "is_low_surrogate c \<longleftrightarrow> 0xDC00 \<le> c \<and> c \<le> 0xDFFF"

fun code_points :: "jsstring \<Rightarrow> nat" where
  "code_points [] = 0"
| "code_points [c] = 1"
| "code_points (c # d # cs) =
     (if is_high_surrogate c \<and> is_low_surrogate d then Suc (code_points cs)
      else Suc (code_points (d # cs)))"

text \<open>
  \<open>Math.ceil(a / b)\<close> for a string length \<open>a\<close> and a positive integer \<open>b\<close>. The quotient of
  two such integers is a double that is an integer exactly when \<open>b\<close> divides \<open>a\<close>, so the
  result is the ceiling of the exact quotient (lemma \<open>ceil_div_real\<close>).
\<close>

definition ceil_div :: "int \<Rightarrow> int \<Rightarrow> int" where
  "ceil_div a b = - ((- a) div b)"

section \<open>The segmenter\<close>

text \<open>
  The separator \<^verbatim>\<open>/(\s+|[...]+)/\<close> matched at the start of the rest of the input: the
  longest run of white space if the rest starts with white space, else the longest run
  of punctuation if it starts with punctuation, else no match. The whole match is the
  one capture group.
\<close>

fun separator_match :: "jsstring \<Rightarrow> jsstring option" where
  "separator_match [] = None"
| "separator_match (c # cs) =
     (if is_space c then Some (takeWhile is_space (c # cs))
      else if is_punct c then Some (takeWhile is_punct (c # cs))
      else None)"

text \<open>
  \<open>String.prototype.split\<close> with a regular expression, for a non-empty input: \<open>t\<close> is the
  text from the end \<open>p\<close> of the last separator to the search position \<open>q\<close>, the second
  argument the input from \<open>q\<close> on. Where the separator does not match, \<open>q\<close> advances by
  one code unit; where it matches, the text before it and its capture are appended and
  both \<open>p\<close> and \<open>q\<close> move behind the match; at the end the text after the last separator is
  appended. \<open>split\<close> is called without a limit; the default limit of \<open>2^32 - 1\<close> pieces is
  not modelled: an input of \<open>n\<close> code units gives at most \<open>2 * n + 1\<close> pieces.
\<close>

function split_from :: "jsstring \<Rightarrow> jsstring \<Rightarrow> jsstring list" where
  "split_from t [] = [t]"
| "split_from t (c # cs) =
     (case separator_match (c # cs) of
        None \<Rightarrow> split_from (t @ [c]) cs
      | Some m \<Rightarrow> t # m # split_from [] (drop (length m) (c # cs)))"
  by pat_completeness auto
termination
  by (relation "measure (\<lambda>(t, s). length s)") (auto split: if_splits)

text \<open>On the empty input \<open>split\<close> returns no piece if the separator matches it, else the input.\<close>

definition split :: "jsstring \<Rightarrow> jsstring list" where
  "split s =
     (if s = [] then (case separator_match s of None \<Rightarrow> [s] | Some m \<Rightarrow> [])
      else split_from [] s)"

text \<open>\<open>roughTokens\<close>: the pieces of the split, the empty ones removed by \<open>filter(Boolean)\<close>.\<close>

definition roughTokens :: "jsstring \<Rightarrow> jsstring list" where
  "roughTokens input = filter (\<lambda>t. t \<noteq> []) (split input)"

section \<open>The token estimator\<close>

record TokenCount =
  token :: jsstring
  count :: int

text \<open>The inner loop over \<open>LANGUAGE_METRICS\<close>: the average of the first metric that matches.\<close>

fun averageCharsPerToken :: "((jsstring \<Rightarrow> bool) \<times> int) list \<Rightarrow> jsstring \<Rightarrow> int option" where
  "averageCharsPerToken [] t = None"
| "averageCharsPerToken ((regex, avg) # ls) t =
     (if regex t then Some avg else averageCharsPerToken ls t)"

text \<open>The body of the loop of \<open>approximateTokenChunks\<close>: the count of one token.\<close>

definition tokenCount :: "jsstring \<Rightarrow> int" where
  "tokenCount t =
     (let avg = averageCharsPerToken LANGUAGE_METRICS t in
      if WHITESPACE_RE t then 0
      else if CJK_RE t then int (code_points t)
      else if NUMERIC_SEQUENCE_RE t then 1
      else if length t \<le> 3 then 1
      else if PUNCTUATION_RE t then
        (if length t > 1 then ceil_div (int (length t)) 2 else 1)
      else if ALPHANUMERIC_RE t \<or> (case avg of None \<Rightarrow> False | Some a \<Rightarrow> a \<noteq> 0) then
        ceil_div (int (length t))
          (case avg of None \<Rightarrow> DEFAULT_AVERAGE_CHARS_PER_TOKEN | Some a \<Rightarrow> a)
      else int (code_points t))"

definition approximateTokenChunks :: "jsstring \<Rightarrow> TokenCount list" where
  "approximateTokenChunks input =
     map (\<lambda>t. \<lparr>token = t, count = tokenCount t\<rparr>) (roughTokens input)"

definition approximateTokenSize :: "jsstring \<Rightarrow> int" where
  "approximateTokenSize input =
     foldl (\<lambda>acc p. acc + count p) 0 (approximateTokenChunks input)"

section \<open>The chunker\<close>

text \<open>
  \<open>maxTokens\<close> and \<open>overlap\<close> are taken as integers, and every count is one. Reading the field
  \<open>count\<close> of \<open>chunk[i]\<close> where \<open>i\<close> is not an index of \<open>chunk\<close> throws a TypeError, the one
  way in which \<open>chunkByMaxTokens\<close> can fail.
\<close>

datatype error = TypeError

text \<open>The variables \<open>chunks\<close>, \<open>chunk\<close> and \<open>count\<close> of \<open>chunkByMaxTokens\<close>.\<close>

record chunker =
  st_chunks :: "TokenCount list list"
  st_chunk :: "TokenCount list"
  st_count :: int

definition chunk_total :: "TokenCount list \<Rightarrow> int" where
  "chunk_total c = sum_list (map count c)"

text \<open>
  The loop \<^verbatim>\<open>while (i-- && count < overlap) { count += chunk[i].count }\<close>, from the values
  of \<open>i\<close> and \<open>count\<close> before the test to their values after the loop. The test reads \<open>i\<close>,
  then decrements it, whatever the outcome; only a value of \<open>i\<close> other than 0 before the
  decrement lets the test go on to compare \<open>count\<close> with \<open>overlap\<close>.
\<close>

function overlap_walk :: "TokenCount list \<Rightarrow> int \<Rightarrow> int \<Rightarrow> int \<Rightarrow> error + int \<times> int" where
  "overlap_walk c overlap i n =
     (if i \<noteq> 0 \<and> n < overlap then
        (if 0 \<le> i - 1 \<and> i - 1 < int (length c)
         then overlap_walk c overlap (i - 1) (n + count (c ! nat (i - 1)))
         else Inl TypeError)
      else Inr (i - 1, n))"
  by pat_completeness auto
termination
  by (relation "measure (\<lambda>(c, overlap, i, n). nat i)") auto

declare overlap_walk.simps [simp del]

text \<open>\<open>chunk.slice(i)\<close>: a negative \<open>i\<close> counts from the end of the array.\<close>

definition slice :: "'a list \<Rightarrow> int \<Rightarrow> 'a list" where
  "slice xs i =
     (if i < 0 then drop (nat (max (int (length xs) + i) 0)) xs
      else drop (nat (min i (int (length xs)))) xs)"

text \<open>
  The body of \<^verbatim>\<open>if (count + token.count > maxTokens)\<close>: the running chunk is pushed, then
  the new chunk and the new count are set, by the walk if \<open>overlap > 0\<close>.
\<close>

definition close_chunk :: "int \<Rightarrow> chunker \<Rightarrow> error + chunker" where
  "close_chunk overlap s =
     (let pushed = st_chunks s @ [st_chunk s] in
      if overlap > 0 then
        (case overlap_walk (st_chunk s) overlap (int (length (st_chunk s)) - 1) 0 of
           Inl e \<Rightarrow> Inl e
         | Inr (i, n) \<Rightarrow>
             Inr \<lparr>st_chunks = pushed, st_chunk = slice (st_chunk s) i, st_count = n\<rparr>)
      else Inr \<lparr>st_chunks = pushed, st_chunk = [], st_count = 0\<rparr>)"

text \<open>One turn of the loop over the pairs.\<close>

definition chunk_step :: "int \<Rightarrow> int \<Rightarrow> chunker \<Rightarrow> TokenCount \<Rightarrow> error + chunker" where
  "chunk_step maxTokens overlap s tok =
     (case (if st_count s + count tok > maxTokens then close_chunk overlap s else Inr s) of
        Inl e \<Rightarrow> Inl e
      | Inr s' \<Rightarrow>
          Inr (s'\<lparr>st_chunk := st_chunk s' @ [tok], st_count := st_count s' + count tok\<rparr>))"

fun chunk_loop :: "int \<Rightarrow> int \<Rightarrow> TokenCount list \<Rightarrow> chunker \<Rightarrow> error + chunker" where
  "chunk_loop maxTokens overlap [] s = Inr s"
| "chunk_loop maxTokens overlap (tok # toks) s =
     (case chunk_step maxTokens overlap s tok of
        Inl e \<Rightarrow> Inl e
      | Inr s' \<Rightarrow> chunk_loop maxTokens overlap toks s')"

text \<open>The array \<open>chunks\<close> at the end of \<open>chunkByMaxTokens\<close>, before the chunks are joined.\<close>

definition chunk_pairs :: "TokenCount list \<Rightarrow> int \<Rightarrow> int \<Rightarrow> error + TokenCount list list" where
  "chunk_pairs counts maxTokens overlap =
     (case chunk_loop maxTokens overlap counts \<lparr>st_chunks = [], st_chunk = [], st_count = 0\<rparr> of
        Inl e \<Rightarrow> Inl e
      | Inr s \<Rightarrow>
          Inr (if length (st_chunk s) > 0 then st_chunks s @ [st_chunk s] else st_chunks s))"

definition chunkByMaxTokens :: "jsstring \<Rightarrow> int \<Rightarrow> int \<Rightarrow> error + jsstring list" where
  "chunkByMaxTokens input maxTokens overlap =
     (case chunk_pairs (approximateTokenChunks input) maxTokens overlap of
        Inl e \<Rightarrow> Inl e
      | Inr cs \<Rightarrow> Inr (map (\<lambda>c. concat (map token c)) cs))"

section \<open>Inputs of the repository's tests\<close>

text \<open>The short English text and the short German text with umlauts of \<^verbatim>\<open>test/index.test.ts\<close>.\<close>

definition english :: jsstring where
  "english = js ''Hello, world! This is a short sentence.''"

definition german :: jsstring where
  "german =
    js ''Die p'' @ [0xFC] @ js ''nktlich gew'' @ [0xFC] @ js ''nschte Tr'' @ [0xFC] @
      js ''ffelf'' @ [0xFC] @ js ''llung im '' @ [0xFC] @ js ''bergest'' @ [0xFC] @
      js ''lpten W'' @ [0xFC] @ js ''rzk'' @ [0xFC] @ js ''mmel-W'' @ [0xFC] @
      js ''rfel ist k'' @ [0xFC] @ js ''mmerlich und d'' @ [0xFC] @ js ''rfte f'' @
      [0xFC] @ js ''rderhin zu R'' @ [0xFC] @ js ''ffeln in H'' @ [0xFC] @
      js ''lle und F'' @ [0xFC] @ js ''lle f'' @ [0xFC] @ js ''hren''"

section \<open>Predicates of the properties\<close>

text \<open>
  A chunk keeps the budget if its counts sum to at most \<open>maxTokens\<close>, or if it is a single
  pair whose own count is above \<open>maxTokens\<close>.
\<close>

fun single_oversized :: "int \<Rightarrow> TokenCount list \<Rightarrow> bool" where
  "single_oversized maxTokens [p] = (maxTokens < count p)"
| "single_oversized maxTokens c = False"

definition within_budget :: "int \<Rightarrow> TokenCount list \<Rightarrow> bool" where
  "within_budget maxTokens c \<longleftrightarrow> chunk_total c \<le> maxTokens \<or> single_oversized maxTokens c"



text \<open>The invariant of the loop of \<open>chunkByMaxTokens\<close> when \<open>overlap\<close> is 0.\<close>

definition budget_inv :: "int \<Rightarrow> chunker \<Rightarrow> bool" where
  "budget_inv maxTokens s \<longleftrightarrow>
     st_count s = chunk_total (st_chunk s)
     \<and> list_all (within_budget maxTokens) (st_chunks s)
     \<and> within_budget maxTokens (st_chunk s)"



text \<open>
  The relation between a run of the loop with \<open>overlap = 0\<close> (state \<open>a\<close>) and a run with any
  overlap (state \<open>b\<close>) over the same pairs: \<open>b\<close> has closed more chunks than \<open>a\<close>, or as many
  with a running sum that is at least that of \<open>a\<close>.
\<close>

definition nonneg_counts :: "TokenCount list \<Rightarrow> bool" where
  "nonneg_counts c \<longleftrightarrow> list_all (\<lambda>p. 0 \<le> count p) c"

definition ahead :: "chunker \<Rightarrow> chunker \<Rightarrow> bool" where
  "ahead a b \<longleftrightarrow>
     0 \<le> st_count b \<and> nonneg_counts (st_chunk b)
     \<and> (st_chunk a = [] \<longleftrightarrow> st_chunk b = [])
     \<and> (length (st_chunks a) < length (st_chunks b)
        \<or> (length (st_chunks a) = length (st_chunks b) \<and> st_count a \<le> st_count b))"

section \<open>The repository's tests on the embedding\<close>

text \<open>
  The expectations of \<^verbatim>\<open>test/index.test.ts\<close> on the two short texts, evaluated on the
  definitions above: the number of chunks for \<open>maxTokens = 5\<close>, the six chunks for
  \<open>maxTokens = 3\<close> and \<open>overlap = 1\<close>, and the size of the German text (the size of the
  English text is the reference example of the estimator, further down).
\<close>

lemma test_chunks_english: "map_sum id length (chunkByMaxTokens english 5 0) = Inr 3"
  by code_simp

lemma test_chunks_english_overlap:
  "chunkByMaxTokens english 3 1 =
     Inr [js ''Hello, world'', js ''Hello, world! This '', js '' This is a '',
          js '' a short '', js '' short sentence'', js '' short sentence.'']"
  by code_simp

lemma test_chunks_german: "map_sum id length (chunkByMaxTokens german 5 0) = Inr 12"
  by code_simp

lemma test_size_german: "approximateTokenSize german = 49"
  by code_simp

section \<open>The segmentation loses nothing\<close>


lemma separator_match_prefix:
  "separator_match s = Some m \<Longrightarrow> m \<noteq> [] \<and> m @ drop (length m) s = s"
proof (cases s)
  case Nil
  assume "separator_match s = Some m"
  with Nil show ?thesis by simp
next
  case (Cons c cs)
  assume a: "separator_match s = Some m"
  have tw: "\<And>P. takeWhile P s @ drop (length (takeWhile P s)) s = s"
    by (metis takeWhile_eq_take append_take_drop_id)
  from a Cons show ?thesis
    using tw [of is_space] tw [of is_punct] by (auto split: if_splits)
qed

lemma concat_split_from: "concat (split_from t s) = t @ s"
proof (induction t s rule: split_from.induct)
  case (1 t)
  show ?case by simp
next
  case (2 t c cs)
  show ?case
  proof (cases "separator_match (c # cs)")
    case None
    with 2 show ?thesis by simp
  next
    case (Some m)
    from separator_match_prefix [OF Some] have "m @ drop (length m) (c # cs) = c # cs" by simp
    with 2(2) [OF Some] Some show ?thesis by simp
  qed
qed

lemma concat_split: "concat (split s) = s"
  by (simp add: split_def concat_split_from)

lemma concat_filter_nonempty: "concat (filter (\<lambda>t. t \<noteq> []) xs) = concat xs"
  by (induction xs) auto

lemma concat_roughTokens: "concat (roughTokens input) = input"
  by (simp add: roughTokens_def concat_filter_nonempty concat_split)

lemma map_token_chunks: "map token (approximateTokenChunks input) = roughTokens input"
  by (simp add: approximateTokenChunks_def comp_def)

text \<open>
  C1. For every input string, the substrings of the pairs that \<open>approximateTokenChunks\<close>
  returns, concatenated in order, are the input string: the segmentation is a lossless
  and total partition of the input.
\<close>

theorem approximateTokenChunks_lossless:
  "concat (map token (approximateTokenChunks input)) = input"
  by (simp add: map_token_chunks concat_roughTokens)

section \<open>The reference example of the estimator\<close>

text \<open>
  C6. \<open>approximateTokenSize("Hello, world! This is a short sentence.")\<close> is 11, as the
  repository's test expects.
\<close>

theorem approximateTokenSize_hello:
  "approximateTokenSize (js ''Hello, world! This is a short sentence.'') = 11"
  by code_simp

section \<open>The counts of the estimator\<close>

lemma code_points_pos: "t \<noteq> [] \<Longrightarrow> 0 < code_points t"
  by (induction t rule: code_points.induct) auto

lemma ceil_div_pos: "0 < a \<Longrightarrow> 0 < b \<Longrightarrow> 1 \<le> ceil_div a b"
proof -
  assume "0 < a" "0 < b"
  then have "(- a) div b < 0" by (simp add: div_neg_pos_less0)
  then show ?thesis by (simp add: ceil_div_def)
qed

lemma averageCharsPerToken_metrics:
  "averageCharsPerToken LANGUAGE_METRICS t = (if list_ex is_umlaut t then Some 3 else None)"
  by (simp add: LANGUAGE_METRICS_def)

lemma tokenCount_whitespace: "WHITESPACE_RE t \<Longrightarrow> tokenCount t = 0"
  by (simp add: tokenCount_def)

lemma tokenCount_pos:
  assumes "t \<noteq> []" and "\<not> WHITESPACE_RE t"
  shows "1 \<le> tokenCount t"
proof -
  from assms(1) have cp: "1 \<le> int (code_points t)"
    using code_points_pos [of t] by simp
  have cd: "3 < length t \<Longrightarrow> 0 < b \<Longrightarrow> 1 \<le> ceil_div (int (length t)) b" for b
    by (rule ceil_div_pos) auto
  show ?thesis
    using assms(2) cp cd [of 2] cd [of 3] cd [of 6]
    by (simp add: tokenCount_def averageCharsPerToken_metrics
        DEFAULT_AVERAGE_CHARS_PER_TOKEN_def)
qed

lemma tokenCount_nonneg: "0 \<le> tokenCount t"
proof (cases "WHITESPACE_RE t")
  case True
  then show ?thesis by (simp add: tokenCount_whitespace)
next
  case False
  then have "t \<noteq> [] \<Longrightarrow> ?thesis" using tokenCount_pos [of t] by simp
  moreover have "t = [] \<Longrightarrow> ?thesis"
    by (simp add: tokenCount_def CJK_RE_def NUMERIC_SEQUENCE_RE_def WHITESPACE_RE_def)
  ultimately show ?thesis by blast
qed

lemma chunks_member:
  "p \<in> set (approximateTokenChunks input) \<Longrightarrow>
     token p \<noteq> [] \<and> count p = tokenCount (token p)"
  by (auto simp: approximateTokenChunks_def roughTokens_def)

text \<open>
  C10. For every input string, a pair of \<open>approximateTokenChunks\<close> has count 0 if and only
  if its substring is white space only; a pair whose substring is not white space only
  has a count of at least 1; so no count is negative.
\<close>

theorem count_zero_iff_whitespace:
  assumes "p \<in> set (approximateTokenChunks input)"
  shows "(count p = 0 \<longleftrightarrow> list_all is_space (token p))
       \<and> (\<not> list_all is_space (token p) \<longrightarrow> 1 \<le> count p)
       \<and> 0 \<le> count p"
proof -
  from chunks_member [OF assms] have ne: "token p \<noteq> []" and c: "count p = tokenCount (token p)"
    by simp_all
  from ne have ws: "WHITESPACE_RE (token p) \<longleftrightarrow> list_all is_space (token p)"
    by (simp add: WHITESPACE_RE_def)
  show ?thesis
  proof (cases "WHITESPACE_RE (token p)")
    case True
    with ws c show ?thesis by (simp add: tokenCount_whitespace)
  next
    case False
    with tokenCount_pos [OF ne False] ws c show ?thesis by simp
  qed
qed

theorem count_zero_iff_whitespace_witness:
  "\<lparr>token = js ''Hello'', count = 1\<rparr> \<in> set (approximateTokenChunks (js ''Hello, world!''))
   \<and> \<not> list_all is_space (js ''Hello'')
   \<and> \<lparr>token = js '' '', count = 0\<rparr> \<in> set (approximateTokenChunks (js ''Hello, world!''))
   \<and> list_all is_space (js '' '')"
proof -
  have h1: "\<lparr>token = js ''Hello'', count = 1\<rparr> \<in> set (approximateTokenChunks (js ''Hello, world!''))"
    by code_simp
  have h2: "\<lparr>token = js '' '', count = 0\<rparr> \<in> set (approximateTokenChunks (js ''Hello, world!''))"
    by code_simp
  from count_zero_iff_whitespace [OF h1] count_zero_iff_whitespace [OF h2] h1 h2
  show ?thesis by simp
qed









section \<open>The chunker without overlap\<close>

lemma chunk_total_append: "chunk_total (xs @ ys) = chunk_total xs + chunk_total ys"
  by (simp add: chunk_total_def)



lemma close_chunk_no_overlap:
  "overlap \<le> 0 \<Longrightarrow>
     close_chunk overlap s = Inr \<lparr>st_chunks = st_chunks s @ [st_chunk s], st_chunk = [], st_count = 0\<rparr>"
  by (simp add: close_chunk_def)

lemma chunk_step_no_overlap:
  "overlap \<le> 0 \<Longrightarrow>
     \<exists>s'. chunk_step maxTokens overlap s tok = Inr s'
        \<and> concat (st_chunks s') @ st_chunk s' = concat (st_chunks s) @ st_chunk s @ [tok]"
  by (simp add: chunk_step_def close_chunk_no_overlap)

lemma chunk_loop_no_overlap:
  "overlap \<le> 0 \<Longrightarrow>
     \<exists>s'. chunk_loop maxTokens overlap toks s = Inr s'
        \<and> concat (st_chunks s') @ st_chunk s' = concat (st_chunks s) @ st_chunk s @ toks"
proof (induction toks arbitrary: s)
  case Nil
  show ?case by simp
next
  case (Cons tok toks)
  from chunk_step_no_overlap [OF Cons.prems, of maxTokens s tok]
  obtain s1 where s1: "chunk_step maxTokens overlap s tok = Inr s1"
    and c1: "concat (st_chunks s1) @ st_chunk s1 = concat (st_chunks s) @ st_chunk s @ [tok]"
    by blast
  from Cons.IH [OF Cons.prems, of s1]
  obtain s' where "chunk_loop maxTokens overlap toks s1 = Inr s'"
    and "concat (st_chunks s') @ st_chunk s' = concat (st_chunks s1) @ st_chunk s1 @ toks"
    by blast
  with s1 c1 show ?case by simp
qed

lemma chunk_pairs_no_overlap:
  "overlap \<le> 0 \<Longrightarrow> \<exists>cs. chunk_pairs toks maxTokens overlap = Inr cs \<and> concat cs = toks"
proof -
  assume "overlap \<le> 0"
  from chunk_loop_no_overlap [OF this, of maxTokens toks "\<lparr>st_chunks = [], st_chunk = [], st_count = 0\<rparr>"]
  obtain s' where "chunk_loop maxTokens overlap toks \<lparr>st_chunks = [], st_chunk = [], st_count = 0\<rparr> = Inr s'"
    and "concat (st_chunks s') @ st_chunk s' = toks" by auto
  then show ?thesis by (auto simp: chunk_pairs_def)
qed

lemma concat_map_concat: "concat (map (\<lambda>c. concat (map f c)) cs) = concat (map f (concat cs))"
  by (induction cs) auto

lemma chunkByMaxTokens_no_overlap:
  "overlap \<le> 0 \<Longrightarrow> \<exists>cs. chunkByMaxTokens input maxTokens overlap = Inr cs \<and> concat cs = input"
proof -
  assume "overlap \<le> 0"
  from chunk_pairs_no_overlap [OF this, of "approximateTokenChunks input" maxTokens]
  obtain ps where ps: "chunk_pairs (approximateTokenChunks input) maxTokens overlap = Inr ps"
    and c: "concat ps = approximateTokenChunks input" by blast
  have "concat (map (\<lambda>c. concat (map token c)) ps) = input"
    by (simp add: concat_map_concat c map_token_chunks concat_roughTokens)
  with ps show ?thesis by (simp add: chunkByMaxTokens_def)
qed

text \<open>
  C9. For every input string and every positive \<open>maxTokens\<close>, with \<open>overlap = 0\<close> (the
  default) \<open>chunkByMaxTokens\<close> returns, and the strings it returns, concatenated in order,
  are the input string.
\<close>

theorem chunkByMaxTokens_partition:
  "0 < maxTokens \<Longrightarrow> \<exists>cs. chunkByMaxTokens input maxTokens 0 = Inr cs \<and> concat cs = input"
  by (rule chunkByMaxTokens_no_overlap) simp

theorem chunkByMaxTokens_partition_witness:
  "(0::int) < 5
   \<and> chunkByMaxTokens (js ''Hello, world! This is a short sentence.'') 5 0
       = Inr [js ''Hello, world! This '', js ''is a short sentence'', js ''.'']
   \<and> concat [js ''Hello, world! This '', js ''is a short sentence'', js ''.'']
       = js ''Hello, world! This is a short sentence.''"
proof -
  have h: "(0::int) < 5" by simp
  have e: "chunkByMaxTokens (js ''Hello, world! This is a short sentence.'') 5 0
       = Inr [js ''Hello, world! This '', js ''is a short sentence'', js ''.'']"
    by code_simp
  from chunkByMaxTokens_partition [OF h, of "js ''Hello, world! This is a short sentence.''"] e h
  show ?thesis by simp
qed

text \<open>
  C8, as stated, fails: \<open>chunkByMaxTokens\<close> checks none of its arguments, and a call with
  \<open>maxTokens = 0\<close> returns chunks.
\<close>

theorem chunkByMaxTokens_no_validation_counterexample:
  "chunkByMaxTokens (js ''a'') 0 0 = Inr [js '''', js ''a'']"
  by code_simp

text \<open>
  C8, amended. \<open>chunkByMaxTokens\<close> called with a non-positive \<open>maxTokens\<close> and \<open>overlap = 0\<close>
  is not rejected: it returns a list of chunks, and their concatenation is the input.
\<close>

theorem chunkByMaxTokens_no_validation:
  "maxTokens \<le> 0 \<Longrightarrow> \<exists>cs. chunkByMaxTokens input maxTokens 0 = Inr cs \<and> concat cs = input"
  by (rule chunkByMaxTokens_no_overlap) simp

theorem chunkByMaxTokens_no_validation_witness:
  "(0::int) \<le> 0 \<and> chunkByMaxTokens (js ''a b'') 0 0 = Inr [js '''', js ''a'', js '' '', js ''b'']
    \<and> concat [js '''', js ''a'', js '' '', js ''b''] = js ''a b''"
proof -
  have h: "(0::int) \<le> 0" by simp
  have e: "chunkByMaxTokens (js ''a b'') 0 0 = Inr [js '''', js ''a'', js '' '', js ''b'']"
    by code_simp
  from chunkByMaxTokens_no_validation [OF h, of "js ''a b''"] e h
  show ?thesis by simp
qed

text \<open>
  C4. A pair whose own count is above \<open>maxTokens\<close> should get a chunk of its own, with the
  closing step firing only on a running chunk that is not empty, so that no empty chunk
  is emitted. The loop has no such guard (only the push after the loop tests
  \<open>chunk.length > 0\<close>): when the first pair is above \<open>maxTokens\<close>, the empty running chunk
  is pushed if \<open>overlap\<close> is 0, and the walk reads \<open>chunk[-2].count\<close> and throws if
  \<open>overlap > 0\<close>.
\<close>

theorem empty_chunk_emitted:
  "chunkByMaxTokens (js ''abcdefgh'') 1 0 = Inr [js '''', js ''abcdefgh'']
   \<and> chunkByMaxTokens (js ''abcdefgh'') 1 1 = Inl TypeError"
  by code_simp

section \<open>The budget of a chunk\<close>

lemma within_budget_single: "within_budget maxTokens [p]"
  by (simp add: within_budget_def chunk_total_def) linarith

lemma chunk_step_budget:
  assumes "budget_inv maxTokens s" and "chunk_step maxTokens 0 s tok = Inr s'"
  shows "budget_inv maxTokens s'"
proof (cases "st_count s + count tok > maxTokens")
  case True
  with assms(2) have "s' = \<lparr>st_chunks = st_chunks s @ [st_chunk s], st_chunk = [tok], st_count = count tok\<rparr>"
    by (simp add: chunk_step_def close_chunk_no_overlap)
  with assms(1) show ?thesis
    by (simp add: budget_inv_def within_budget_single chunk_total_def)
next
  case False
  with assms(2) have s': "s' = s\<lparr>st_chunk := st_chunk s @ [tok], st_count := st_count s + count tok\<rparr>"
    by (simp add: chunk_step_def)
  from assms(1) False have "chunk_total (st_chunk s @ [tok]) \<le> maxTokens"
    by (simp add: budget_inv_def chunk_total_def)
  with assms(1) s' show ?thesis
    by (simp add: budget_inv_def within_budget_def chunk_total_def)
qed

lemma chunk_loop_budget:
  "budget_inv maxTokens s \<Longrightarrow> chunk_loop maxTokens 0 toks s = Inr s' \<Longrightarrow> budget_inv maxTokens s'"
proof (induction toks arbitrary: s)
  case Nil
  then show ?case by simp
next
  case (Cons tok toks)
  from Cons.prems(2) obtain s1 where s1: "chunk_step maxTokens 0 s tok = Inr s1"
    and l: "chunk_loop maxTokens 0 toks s1 = Inr s'"
    by (auto split: sum.splits)
  from chunk_step_budget [OF Cons.prems(1) s1] have "budget_inv maxTokens s1" .
  from Cons.IH [OF this l] show ?case .
qed

lemma chunk_loop_total_no_overlap:
  "\<exists>s'. chunk_loop maxTokens 0 toks s = Inr s'"
proof (induction toks arbitrary: s)
  case Nil
  show ?case by simp
next
  case (Cons tok toks)
  have "\<exists>s1. chunk_step maxTokens 0 s tok = Inr s1"
    by (simp add: chunk_step_def close_chunk_no_overlap)
  then obtain s1 where "chunk_step maxTokens 0 s tok = Inr s1" by blast
  with Cons.IH [of s1] show ?case by simp
qed

text \<open>
  C2, as stated, fails with \<open>overlap > 0\<close>: for the input of the repository's test,
  \<open>maxTokens = 3\<close> and \<open>overlap = 1\<close>, the second chunk has 8 pairs that sum to 5 and the
  last has 5 pairs that sum to 4. (Each element below is the number of pairs of a chunk,
  the sum of its counts and whether it keeps the budget.)
\<close>

theorem chunk_budget_counterexample:
  "map_sum id (map (\<lambda>c. (length c, chunk_total c, within_budget 3 c)))
     (chunk_pairs (approximateTokenChunks (js ''Hello, world! This is a short sentence.'')) 3 1)
   = Inr [(4, 3, True), (8, 5, False), (7, 3, True), (5, 2, True), (4, 3, True), (5, 4, False)]"
  by code_simp

text \<open>
  C2, amended. For every input string and every positive \<open>maxTokens\<close>, with \<open>overlap = 0\<close>
  every chunk that \<open>chunkByMaxTokens\<close> emits has a total count of at most \<open>maxTokens\<close>,
  except a chunk of a single pair whose own count is above \<open>maxTokens\<close>.
\<close>

theorem chunk_budget_no_overlap:
  assumes "0 < maxTokens"
  shows "\<exists>cs. chunk_pairs (approximateTokenChunks input) maxTokens 0 = Inr cs
            \<and> list_all (within_budget maxTokens) cs"
proof -
  let ?s0 = "\<lparr>st_chunks = [], st_chunk = [], st_count = 0\<rparr>"
  from chunk_loop_total_no_overlap
  obtain s' where s': "chunk_loop maxTokens 0 (approximateTokenChunks input) ?s0 = Inr s'"
    by blast
  from assms have "budget_inv maxTokens ?s0"
    by (simp add: budget_inv_def within_budget_def chunk_total_def)
  from chunk_loop_budget [OF this s'] have "budget_inv maxTokens s'" .
  with s' show ?thesis
    by (simp add: chunk_pairs_def budget_inv_def)
qed

theorem chunk_budget_no_overlap_witness:
  "(0::int) < 1
   \<and> map_sum id (map (map (\<lambda>p. (token p, count p)))) (chunk_pairs (approximateTokenChunks (js ''ab abcdefgh'')) 1 0)
       = Inr [[(js ''ab'', 1), (js '' '', 0)], [(js ''abcdefgh'', 2)]]
   \<and> list_all (within_budget 1) [[\<lparr>token = js ''ab'', count = 1\<rparr>, \<lparr>token = js '' '', count = 0\<rparr>], [\<lparr>token = js ''abcdefgh'', count = 2\<rparr>]]"
proof -
  have h: "(0::int) < 1" by simp
  have e: "chunk_pairs (approximateTokenChunks (js ''ab abcdefgh'')) 1 0
     = Inr [[\<lparr>token = js ''ab'', count = 1\<rparr>, \<lparr>token = js '' '', count = 0\<rparr>], [\<lparr>token = js ''abcdefgh'', count = 2\<rparr>]]"
    by code_simp
  from chunk_budget_no_overlap [OF h, of "js ''ab abcdefgh''"] e h
  show ?thesis by simp
qed

section \<open>The seed of a chunk after a close\<close>

lemma overlap_walk_stop:
  "\<not> (i \<noteq> 0 \<and> n < overlap) \<Longrightarrow> overlap_walk c overlap i n = Inr (i - 1, n)"
  by (subst overlap_walk.simps) auto

lemma overlap_walk_step:
  "i \<noteq> 0 \<Longrightarrow> n < overlap \<Longrightarrow> 0 \<le> i - 1 \<Longrightarrow> i - 1 < int (length c) \<Longrightarrow>
     overlap_walk c overlap i n = overlap_walk c overlap (i - 1) (n + count (c ! nat (i - 1)))"
  by (subst overlap_walk.simps) auto

lemma overlap_walk_fail:
  "i \<noteq> 0 \<Longrightarrow> n < overlap \<Longrightarrow> \<not> (0 \<le> i - 1 \<and> i - 1 < int (length c)) \<Longrightarrow>
     overlap_walk c overlap i n = Inl TypeError"
  by (subst overlap_walk.simps) auto








section \<open>The number of chunks and the overlap\<close>

lemma overlap_walk_nonneg:
  "nonneg_counts c \<Longrightarrow> 0 \<le> n \<Longrightarrow> overlap_walk c overlap i n = Inr (i', n') \<Longrightarrow> 0 \<le> n'"
proof (induction c overlap i n rule: overlap_walk.induct)
  case (1 c overlap i n)
  show ?case
  proof (cases "i \<noteq> 0 \<and> n < overlap")
    case False
    with "1.prems" show ?thesis by (simp add: overlap_walk_stop)
  next
    case True
    show ?thesis
    proof (cases "0 \<le> i - 1 \<and> i - 1 < int (length c)")
      case False
      with True "1.prems"(3) show ?thesis by (simp add: overlap_walk_fail)
    next
      case in_range: True
      then have "nat (i - 1) < length c" by linarith
      with "1.prems"(1) have "0 \<le> count (c ! nat (i - 1))"
        by (simp add: nonneg_counts_def list_all_length)
      with "1.prems"(2) have n: "0 \<le> n + count (c ! nat (i - 1))" by simp
      from True in_range "1.prems"(3)
      have "overlap_walk c overlap (i - 1) (n + count (c ! nat (i - 1))) = Inr (i', n')"
        by (simp add: overlap_walk_step)
      from "1.IH" [OF True in_range "1.prems"(1) n this] show ?thesis .
    qed
  qed
qed

lemma nonneg_counts_slice: "nonneg_counts c \<Longrightarrow> nonneg_counts (slice c i)"
  by (auto simp: nonneg_counts_def slice_def list_all_iff dest: in_set_dropD)

lemma close_chunk_ahead:
  assumes "nonneg_counts (st_chunk b)" and "close_chunk overlap b = Inr b1"
  shows "st_chunks b1 = st_chunks b @ [st_chunk b] \<and> 0 \<le> st_count b1 \<and> nonneg_counts (st_chunk b1)"
proof (cases "0 < overlap")
  case False
  with assms(2) show ?thesis
    by (auto simp: close_chunk_def nonneg_counts_def)
next
  case True
  with assms(2) obtain i n
    where w: "overlap_walk (st_chunk b) overlap (int (length (st_chunk b)) - 1) 0 = Inr (i, n)"
      and b1: "b1 = \<lparr>st_chunks = st_chunks b @ [st_chunk b], st_chunk = slice (st_chunk b) i, st_count = n\<rparr>"
    by (auto simp: close_chunk_def split: sum.splits)
  from overlap_walk_nonneg [OF assms(1) _ w] have "0 \<le> n" by simp
  with b1 nonneg_counts_slice [OF assms(1)] show ?thesis by simp
qed

lemma chunk_step_ahead:
  assumes "0 \<le> count tok" and "ahead a b"
    and "chunk_step maxTokens 0 a tok = Inr a'"
    and "chunk_step maxTokens overlap b tok = Inr b'"
  shows "ahead a' b'"
proof -
  from assms(2) have cb: "0 \<le> st_count b" and nb: "nonneg_counts (st_chunk b)"
    and ord: "length (st_chunks a) < length (st_chunks b)
        \<or> (length (st_chunks a) = length (st_chunks b) \<and> st_count a \<le> st_count b)"
    by (simp_all add: ahead_def)
  have a_len: "length (st_chunks a') \<le> Suc (length (st_chunks a))"
    and a_closed: "st_count a + count tok > maxTokens \<Longrightarrow>
        length (st_chunks a') = Suc (length (st_chunks a)) \<and> st_count a' = count tok"
    and a_open: "\<not> st_count a + count tok > maxTokens \<Longrightarrow>
        length (st_chunks a') = length (st_chunks a) \<and> st_count a' = st_count a + count tok"
    and a_ne: "st_chunk a' \<noteq> []"
    using assms(3) by (auto simp: chunk_step_def close_chunk_no_overlap split: if_splits)
  show ?thesis
  proof (cases "st_count b + count tok > maxTokens")
    case True
    with assms(4) obtain b1 where c: "close_chunk overlap b = Inr b1"
      and b': "b' = b1\<lparr>st_chunk := st_chunk b1 @ [tok], st_count := st_count b1 + count tok\<rparr>"
      by (auto simp: chunk_step_def split: sum.splits)
    from close_chunk_ahead [OF nb c]
    have b1: "st_chunks b1 = st_chunks b @ [st_chunk b]" "0 \<le> st_count b1" "nonneg_counts (st_chunk b1)"
      by simp_all
    from b' b1 assms(1) have "0 \<le> st_count b'" "nonneg_counts (st_chunk b')" "st_chunk b' \<noteq> []"
      "length (st_chunks b') = Suc (length (st_chunks b))" "count tok \<le> st_count b'"
      by (simp_all add: nonneg_counts_def)
    with a_ne a_len a_closed a_open ord show ?thesis
      by (cases "st_count a + count tok > maxTokens") (auto simp: ahead_def)
  next
    case False
    with assms(4) have b': "b' = b\<lparr>st_chunk := st_chunk b @ [tok], st_count := st_count b + count tok\<rparr>"
      by (simp add: chunk_step_def)
    from b' cb nb assms(1) have "0 \<le> st_count b'" "nonneg_counts (st_chunk b')" "st_chunk b' \<noteq> []"
      "length (st_chunks b') = length (st_chunks b)" "st_count b' = st_count b + count tok"
      by (simp_all add: nonneg_counts_def)
    with a_ne a_closed a_open ord False cb show ?thesis
      by (cases "st_count a + count tok > maxTokens") (auto simp: ahead_def)
  qed
qed

lemma chunk_loop_ahead:
  "nonneg_counts toks \<Longrightarrow> ahead a b \<Longrightarrow>
     chunk_loop maxTokens 0 toks a = Inr a' \<Longrightarrow>
     chunk_loop maxTokens overlap toks b = Inr b' \<Longrightarrow> ahead a' b'"
proof (induction toks arbitrary: a b)
  case Nil
  then show ?case by simp
next
  case (Cons tok toks)
  from Cons.prems(3) obtain a1 where a1: "chunk_step maxTokens 0 a tok = Inr a1"
    and la: "chunk_loop maxTokens 0 toks a1 = Inr a'"
    by (auto split: sum.splits)
  from Cons.prems(4) obtain b1 where b1: "chunk_step maxTokens overlap b tok = Inr b1"
    and lb: "chunk_loop maxTokens overlap toks b1 = Inr b'"
    by (auto split: sum.splits)
  from Cons.prems(1) have t: "0 \<le> count tok" and ts: "nonneg_counts toks"
    by (simp_all add: nonneg_counts_def)
  from chunk_step_ahead [OF t Cons.prems(2) a1 b1] have "ahead a1 b1" .
  from Cons.IH [OF ts this la lb] show ?case .
qed

lemma chunk_pairs_ahead:
  assumes "nonneg_counts toks"
    and "chunk_pairs toks maxTokens 0 = Inr xs" and "chunk_pairs toks maxTokens overlap = Inr ys"
  shows "length xs \<le> length ys"
proof -
  let ?s0 = "\<lparr>st_chunks = [], st_chunk = [], st_count = 0\<rparr>"
  from assms(2) obtain a' where a': "chunk_loop maxTokens 0 toks ?s0 = Inr a'"
    and xs: "xs = (if length (st_chunk a') > 0 then st_chunks a' @ [st_chunk a'] else st_chunks a')"
    by (auto simp: chunk_pairs_def split: sum.splits)
  from assms(3) obtain b' where b': "chunk_loop maxTokens overlap toks ?s0 = Inr b'"
    and ys: "ys = (if length (st_chunk b') > 0 then st_chunks b' @ [st_chunk b'] else st_chunks b')"
    by (auto simp: chunk_pairs_def split: sum.splits)
  have "ahead ?s0 ?s0" by (simp add: ahead_def nonneg_counts_def)
  from chunk_loop_ahead [OF assms(1) this a' b'] have "ahead a' b'" .
  with xs ys show ?thesis by (auto simp: ahead_def)
qed

lemma nonneg_counts_chunks: "nonneg_counts (approximateTokenChunks input)"
  by (simp add: nonneg_counts_def approximateTokenChunks_def list_all_iff tokenCount_nonneg)

text \<open>
  C7, as stated, fails: for the input \<open>" a b c"\<close> and \<open>maxTokens = 1\<close>, \<open>overlap = 1\<close> gives
  four chunks and \<open>overlap = 2\<close> gives three.
\<close>

theorem overlap_monotone_counterexample:
  "chunkByMaxTokens (js '' a b c'') 1 1 = Inr [js '' a '', js '' a b'', js '' a b '', js '' b c'']
   \<and> chunkByMaxTokens (js '' a b c'') 1 2 = Inr [js '' a '', js '' b'', js ''b c'']"
  by code_simp

text \<open>
  C7, amended. For every input string, every positive \<open>maxTokens\<close> and every non-negative
  \<open>overlap\<close> with which \<open>chunkByMaxTokens\<close> returns, it emits at least as many chunks as
  with \<open>overlap = 0\<close>: against no overlap, an overlap never decreases the number of
  chunks.
\<close>

theorem overlap_from_zero_monotone:
  assumes "0 < maxTokens" and "0 \<le> overlap"
    and "chunkByMaxTokens input maxTokens 0 = Inr xs"
    and "chunkByMaxTokens input maxTokens overlap = Inr ys"
  shows "length xs \<le> length ys"
proof -
  from assms(3) obtain xs' where x: "chunk_pairs (approximateTokenChunks input) maxTokens 0 = Inr xs'"
    and lx: "length xs = length xs'"
    by (auto simp: chunkByMaxTokens_def split: sum.splits)
  from assms(4) obtain ys' where y: "chunk_pairs (approximateTokenChunks input) maxTokens overlap = Inr ys'"
    and ly: "length ys = length ys'"
    by (auto simp: chunkByMaxTokens_def split: sum.splits)
  from chunk_pairs_ahead [OF nonneg_counts_chunks x y] lx ly show ?thesis by simp
qed

theorem overlap_from_zero_monotone_witness:
  "(0::int) < 3 \<and> (0::int) \<le> 1
   \<and> chunkByMaxTokens (js ''Hello, world! This is a short sentence.'') 3 0
       = Inr [js ''Hello, world'', js ''! This is '', js ''a short '', js ''sentence.'']
   \<and> chunkByMaxTokens (js ''Hello, world! This is a short sentence.'') 3 1
       = Inr [js ''Hello, world'', js ''Hello, world! This '', js '' This is a '',
              js '' a short '', js '' short sentence'', js '' short sentence.'']
   \<and> length [js ''Hello, world'', js ''! This is '', js ''a short '', js ''sentence.'']
       \<le> length [js ''Hello, world'', js ''Hello, world! This '', js '' This is a '',
              js '' a short '', js '' short sentence'', js '' short sentence.'']"
proof -
  have h1: "(0::int) < 3" and h2: "(0::int) \<le> 1" by simp_all
  have e1: "chunkByMaxTokens (js ''Hello, world! This is a short sentence.'') 3 0
       = Inr [js ''Hello, world'', js ''! This is '', js ''a short '', js ''sentence.'']"
    by code_simp
  have e2: "chunkByMaxTokens (js ''Hello, world! This is a short sentence.'') 3 1
       = Inr [js ''Hello, world'', js ''Hello, world! This '', js '' This is a '',
              js '' a short '', js '' short sentence'', js '' short sentence.'']"
    by code_simp
  from overlap_from_zero_monotone [OF h1 h2 e1 e2] e1 e2 h1 h2 show ?thesis by simp
qed

end
